theory Spec2Isabelle
  imports Main "HOL-Library.AList"
begin

section \<open>Characters and strings\<close>

text \<open>
  A Python \<open>str\<close> is a sequence of code points. A \<^typ>\<open>char\<close> stands for a code point
  below 256 (Latin-1), so a \<^typ>\<open>string\<close> is a Python string over these code points.
  The three predicates are the classes Python's \<open>re\<close> and \<open>str.strip\<close> use on such
  characters: \<open>\s\<close> and \<open>strip()\<close> share one notion of whitespace, \<open>\d\<close> is a
  decimal digit, \<open>\w\<close> is an alphanumeric character or the underscore.
\<close>

definition codepoint :: "char \<Rightarrow> nat" where
  "codepoint c = of_char c"

definition newline :: char where
  "newline = CHR 0x0A"

definition is_space :: "char \<Rightarrow> bool" where
  "is_space c = (codepoint c \<in> {9, 10, 11, 12, 13, 28, 29, 30, 31, 32, 133, 160})"

definition is_digit :: "char \<Rightarrow> bool" where
  "is_digit c = (48 \<le> codepoint c \<and> codepoint c \<le> 57)"

definition is_alnum :: "char \<Rightarrow> bool" where
  "is_alnum c =
     (let n = codepoint c in
        (48 \<le> n \<and> n \<le> 57) \<or> (65 \<le> n \<and> n \<le> 90) \<or> (97 \<le> n \<and> n \<le> 122)
        \<or> n \<in> {170, 178, 179, 181, 185, 186, 188, 189, 190}
        \<or> (192 \<le> n \<and> n \<le> 214) \<or> (216 \<le> n \<and> n \<le> 246) \<or> 248 \<le> n)"

definition is_word :: "char \<Rightarrow> bool" where
  "is_word c = (is_alnum c \<or> c = CHR ''_'')"

text \<open>\<open>line.strip()\<close>: whitespace removed at both ends.\<close>

definition strip :: "string \<Rightarrow> string" where
  "strip s = rev (dropWhile is_space (rev (dropWhile is_space s)))"

text \<open>
  \<open>f.readlines()\<close> on the decoded text of a file (line ends already translated to
  \<open>\n\<close>, as text mode does): the text is cut after each newline, which stays at the
  end of its line; a last line without newline is kept as it is.
\<close>

fun readlines :: "string \<Rightarrow> string list" where
  "readlines [] = []"
| "readlines (c # cs) =
     (if c = newline then [c] # readlines cs
      else (case readlines cs of [] \<Rightarrow> [[c]] | l # ls \<Rightarrow> (c # l) # ls))"

text \<open>\<open>lines[:n]\<close>, also for a negative \<open>n\<close>, which drops the last \<open>-n\<close> items.\<close>

definition slice_to :: "'a list \<Rightarrow> int \<Rightarrow> 'a list" where
  "slice_to xs n = (if 0 \<le> n then take (nat n) xs else take (length xs - nat (- n)) xs)"


section \<open>Regular expressions: the part of Python's \<open>re\<close> that the patterns of the source use\<close>

text \<open>
  One-character items: a literal, \<open>.\<close> (any character but the newline), \<open>\d\<close>,
  \<open>\s\<close>, a range \<open>[a-b]\<close> and a set \<open>[abc]\<close>.
\<close>

datatype atom = Chr char | Dot | Digit | Space | Range char char | OneOf string

text \<open>
  \<open>WordB\<close> is \<open>\b\<close>, \<open>Seq\<close> is juxtaposition, \<open>Alt\<close> is \<open>|\<close>, \<open>Star\<close> is the greedy
  \<open>*\<close>, \<open>Group n\<close> is the capturing group number \<open>n\<close>; a non-capturing group
  \<open>(?:...)\<close> is just its body.
\<close>

datatype regex = Atom atom | WordB | Eps | Seq regex regex | Alt regex regex
  | Star regex | Group nat regex

definition Plus :: "regex \<Rightarrow> regex" where
  "Plus r = Seq r (Star r)"

definition Opt :: "regex \<Rightarrow> regex" where
  "Opt r = Alt r Eps"

fun times :: "nat \<Rightarrow> regex \<Rightarrow> regex" where
  "times 0 r = Eps"
| "times (Suc n) r = Seq r (times n r)"

fun lits :: "string \<Rightarrow> regex" where
  "lits [] = Eps"
| "lits (c # cs) = Seq (Atom (Chr c)) (lits cs)"

fun atom_ok :: "atom \<Rightarrow> char \<Rightarrow> bool" where
  "atom_ok (Chr a) c = (c = a)"
| "atom_ok Dot c = (c \<noteq> newline)"
| "atom_ok Digit c = is_digit c"
| "atom_ok Space c = is_space c"
| "atom_ok (Range lo hi) c = (codepoint lo \<le> codepoint c \<and> codepoint c \<le> codepoint hi)"
| "atom_ok (OneOf cs) c = (c \<in> set cs)"

text \<open>
  A matcher state: the character just before the current position (none at the start of
  the string), the text still to be read, and the groups captured so far (the latest
  first).
\<close>

type_synonym mstate = "char option \<times> string \<times> (nat \<times> string) list"

text \<open>\<open>\b\<close>: exactly one of the characters on the two sides is a word character.\<close>

definition at_boundary :: "char option \<Rightarrow> string \<Rightarrow> bool" where
  "at_boundary p s =
     ((case p of None \<Rightarrow> False | Some c \<Rightarrow> is_word c)
        \<noteq> (case s of [] \<Rightarrow> False | c # _ \<Rightarrow> is_word c))"

text \<open>
  The backtracking matcher: \<open>rmatch r st\<close> lists the states in which a match of \<open>r\<close>
  started in \<open>st\<close> can end, in the order in which backtracking tries them: the left
  alternative before the right one, a longer repetition before a shorter one. An
  iteration of \<open>*\<close> that reads nothing is not repeated.
\<close>

fun rmatch :: "regex \<Rightarrow> mstate \<Rightarrow> mstate list" where
  "rmatch (Atom a) (p, s, g) =
     (case s of [] \<Rightarrow> [] | c # cs \<Rightarrow> if atom_ok a c then [(Some c, cs, g)] else [])"
| "rmatch WordB (p, s, g) = (if at_boundary p s then [(p, s, g)] else [])"
| "rmatch Eps st = [st]"
| "rmatch (Seq a b) st = concat (map (rmatch b) (rmatch a st))"
| "rmatch (Alt a b) st = rmatch a st @ rmatch b st"
| "rmatch (Star r) (p, s, g) =
     concat (map (\<lambda>(p', s', g').
                    if length s' < length s then rmatch (Star r) (p', s', g') else [])
                 (rmatch r (p, s, g)))
     @ [(p, s, g)]"
| "rmatch (Group n r) (p, s, g) =
     map (\<lambda>(p', s', g'). (p', s', (n, take (length s - length s') s) # g'))
         (rmatch r (p, s, g))"

text \<open>A match object: the whole matched text and the captured groups.\<close>

type_synonym re_match = "string \<times> (nat \<times> string) list"

definition group :: "re_match \<Rightarrow> nat \<Rightarrow> string option" where
  "group m n = (if n = 0 then Some (fst m) else map_of (snd m) n)"

text \<open>
  A match attempt at one position: the first result of the matcher, if it has one.
\<close>

definition match_at :: "regex \<Rightarrow> char option \<Rightarrow> string \<Rightarrow> re_match option" where
  "match_at r p s =
     (case rmatch r (p, s, []) of
        [] \<Rightarrow> None
      | (p', s', g) # _ \<Rightarrow> Some (take (length s - length s') s, g))"

text \<open>
  \<open>re.search\<close>: the match at the leftmost position that has one; the positions run
  from the start of the string to its end, the end included.
\<close>

fun search_from :: "regex \<Rightarrow> char option \<Rightarrow> string \<Rightarrow> re_match option" where
  "search_from r p [] = match_at r p []"
| "search_from r p (c # cs) =
     (case match_at r p (c # cs) of
        Some m \<Rightarrow> Some m
      | None \<Rightarrow> search_from r (Some c) cs)"

definition re_search :: "regex \<Rightarrow> string \<Rightarrow> re_match option" where
  "re_search r line = search_from r None line"


section \<open>The three built-in patterns of \<open>analyze_log_file\<close>\<close>

text \<open>\<open>(?:25[0-5]|2[0-4][0-9]|[01]?[0-9][0-9]?)\<close>\<close>

definition ip_octet :: regex where
  "ip_octet =
     Alt (Seq (Atom (Chr CHR ''2'')) (Seq (Atom (Chr CHR ''5'')) (Atom (Range CHR ''0'' CHR ''5''))))
    (Alt (Seq (Atom (Chr CHR ''2'')) (Seq (Atom (Range CHR ''0'' CHR ''4''))
                                         (Atom (Range CHR ''0'' CHR ''9''))))
         (Seq (Opt (Atom (OneOf ''01''))) (Seq (Atom (Range CHR ''0'' CHR ''9''))
                                              (Opt (Atom (Range CHR ''0'' CHR ''9''))))))"

text \<open>\<open>\b(?:(?:25[0-5]|2[0-4][0-9]|[01]?[0-9][0-9]?)\.){3}(?:25[0-5]|2[0-4][0-9]|[01]?[0-9][0-9]?)\b\<close>\<close>

definition ip_re :: regex where
  "ip_re = Seq WordB (Seq (times 3 (Seq ip_octet (Atom (Chr CHR ''.'')))) (Seq ip_octet WordB))"

text \<open>\<open>ERROR\s+(\d+)\<close>\<close>

definition error_code_re :: regex where
  "error_code_re = Seq (lits ''ERROR'') (Seq (Plus (Atom Space)) (Group 1 (Plus (Atom Digit))))"

text \<open>\<open>User-Agent:\s*(.+)\<close>\<close>

definition user_agent_re :: regex where
  "user_agent_re =
     Seq (lits ''User-Agent:'') (Seq (Star (Atom Space)) (Group 1 (Plus (Atom Dot))))"


section \<open>\<open>analyze_log_file\<close>\<close>

text \<open>
  The exceptions that reach the handlers of \<open>analyze_log_file\<close>: the file does not
  exist; \<open>re\<close> rejects the pattern; anything else raised while the file is opened and
  read (no permission, a directory, undecodable bytes), with its text.
\<close>

datatype exn = FileNotFoundError | ReError | OtherError string

text \<open>
  Two things the function uses are not code of the repository and are parameters.
  The compiler of \<open>re\<close> maps a pattern to nothing when it is malformed, and else to what
  \<open>re.search(pattern, line).group(0)\<close> is for each line (nothing when there is no
  match). The file system maps a path to the text \<open>open\<close> and \<open>readlines\<close> read there,
  or to the exception they raise.
\<close>

type_synonym compiler = "string \<Rightarrow> (string \<Rightarrow> string option) option"

type_synonym filesystem = "string \<Rightarrow> exn + string"

text \<open>A row \<open>entry\<close> is a Python dict: the keys in insertion order, a value or \<open>None\<close>.\<close>

type_synonym entry = "(string \<times> string option) list"

type_synonym dataframe = "entry list"

text \<open>Python's truth value of an optional string and of an optional integer.\<close>

definition truthy :: "string option \<Rightarrow> bool" where
  "truthy v = (case v of None \<Rightarrow> False | Some s \<Rightarrow> s \<noteq> [])"

definition truthy_int :: "int option \<Rightarrow> bool" where
  "truthy_int v = (case v of None \<Rightarrow> False | Some n \<Rightarrow> n \<noteq> 0)"

text \<open>The body of the loop over the lines; \<open>re.search\<close> raises on a malformed pattern.\<close>

definition extract_line ::
  "compiler \<Rightarrow> string option \<Rightarrow> bool \<Rightarrow> bool \<Rightarrow> bool \<Rightarrow> string \<Rightarrow> exn + entry" where
  "extract_line re_compile pat ip ec ua line =
     (let entry = AList.update ''log_entry'' (Some (strip line)) [] in
      case (if truthy pat
            then (case re_compile (the pat) of
                    None \<Rightarrow> Inl ReError
                  | Some search \<Rightarrow> Inr (AList.update ''pattern_match'' (search line) entry))
            else Inr entry) of
        Inl e \<Rightarrow> Inl e
      | Inr entry \<Rightarrow>
          (let entry = (if ip
                        then AList.update ''ip_address''
                               (Option.bind (re_search ip_re line) (\<lambda>m. group m 0)) entry
                        else entry);
               entry = (if ec
                        then AList.update ''error_code''
                               (Option.bind (re_search error_code_re line) (\<lambda>m. group m 1)) entry
                        else entry);
               entry = (if ua
                        then AList.update ''user_agent''
                               (Option.bind (re_search user_agent_re line) (\<lambda>m. group m 1)) entry
                        else entry)
           in Inr entry))"

text \<open>The loop: \<open>data\<close> grows by one entry per line, an exception ends it.\<close>

fun process_lines ::
  "compiler \<Rightarrow> string option \<Rightarrow> bool \<Rightarrow> bool \<Rightarrow> bool \<Rightarrow> dataframe \<Rightarrow> string list
     \<Rightarrow> exn + dataframe" where
  "process_lines re_compile pat ip ec ua data [] = Inr data"
| "process_lines re_compile pat ip ec ua data (line # lines) =
     (case extract_line re_compile pat ip ec ua line of
        Inl e \<Rightarrow> Inl e
      | Inr entry \<Rightarrow> process_lines re_compile pat ip ec ua (data @ [entry]) lines)"

text \<open>The lines that the loop runs over: \<open>if limit: lines = lines[:limit]\<close>.\<close>

definition retained :: "int option \<Rightarrow> string list \<Rightarrow> string list" where
  "retained lim lines = (if truthy_int lim then slice_to lines (the lim) else lines)"

text \<open>The \<open>try\<close> block.\<close>

definition analyze_body ::
  "compiler \<Rightarrow> filesystem \<Rightarrow> string \<Rightarrow> string option \<Rightarrow> int option \<Rightarrow> bool \<Rightarrow> bool \<Rightarrow> bool
     \<Rightarrow> exn + dataframe" where
  "analyze_body re_compile fs path pat lim ip ec ua =
     (case fs path of
        Inl e \<Rightarrow> Inl e
      | Inr text \<Rightarrow> process_lines re_compile pat ip ec ua [] (retained lim (readlines text)))"

text \<open>What the program logs, writes and prints, in order.\<close>

datatype level = Info | Warning | Error

datatype log_message =
    LogFileNotFound string
  | AnalysisError exn
  | InvalidLimit
  | ResultsSaved string
  | NoData
  | UnexpectedError exn

datatype event = Logged level log_message | ToCsv string dataframe | Printed dataframe

text \<open>The function with its two handlers: the log it writes and the table it returns.\<close>

definition analyze_log_file ::
  "compiler \<Rightarrow> filesystem \<Rightarrow> string \<Rightarrow> string option \<Rightarrow> int option \<Rightarrow> bool \<Rightarrow> bool \<Rightarrow> bool
     \<Rightarrow> event list \<times> dataframe" where
  "analyze_log_file re_compile fs path pat lim ip ec ua =
     (case analyze_body re_compile fs path pat lim ip ec ua of
        Inr data \<Rightarrow> ([], data)
      | Inl FileNotFoundError \<Rightarrow> ([Logged Error (LogFileNotFound path)], [])
      | Inl e \<Rightarrow> ([Logged Error (AnalysisError e)], []))"


section \<open>\<open>main\<close>\<close>

record args =
  log_file :: string
  pattern :: "string option"
  output_file :: "string option"
  limit :: "int option"
  ip_address :: bool
  error_codes :: bool
  user_agents :: bool

text \<open>\<open>df.empty\<close>: no row or no column.\<close>

definition df_columns :: "dataframe \<Rightarrow> string list" where
  "df_columns df = remdups (concat (map (map fst) df))"

definition df_empty :: "dataframe \<Rightarrow> bool" where
  "df_empty df = (length df = 0 \<or> length (df_columns df) = 0)"

text \<open>
  \<open>main\<close> after \<open>setup_argparse\<close>. The two \<open>isinstance\<close> checks on the paths cannot fail
  on what \<open>argparse\<close> returns and are in the types. \<open>to_csv\<close> writes to the file system,
  a third parameter: the exception it raises at a path, if any.
\<close>

definition main ::
  "compiler \<Rightarrow> filesystem \<Rightarrow> (string \<Rightarrow> exn option) \<Rightarrow> args \<Rightarrow> event list" where
  "main re_compile fs to_csv a =
     (if (case limit a of None \<Rightarrow> False | Some n \<Rightarrow> n \<le> 0)
      then [Logged Error InvalidLimit]
      else
        (let (logs, df) = analyze_log_file re_compile fs (log_file a) (pattern a) (limit a)
                            (ip_address a) (error_codes a) (user_agents a)
         in logs @
            (if \<not> df_empty df
             then (if truthy (output_file a)
                   then ToCsv (the (output_file a)) df #
                        (case to_csv (the (output_file a)) of
                           Some e \<Rightarrow> [Logged Error (UnexpectedError e)]
                         | None \<Rightarrow> [Logged Info (ResultsSaved (the (output_file a)))])
                   else [Printed df])
             else [Logged Warning NoData])))"


section \<open>Words of the specification\<close>

text \<open>
  The column set of a run, as the specification fixes it: \<open>log_entry\<close>, then one column
  per active rule, in the order \<open>pattern_match\<close>, \<open>ip_address\<close>, \<open>error_code\<close>,
  \<open>user_agent\<close>.
\<close>

definition columns :: "string option \<Rightarrow> bool \<Rightarrow> bool \<Rightarrow> bool \<Rightarrow> string list" where
  "columns pat ip ec ua =
     ''log_entry'' # (if truthy pat then [''pattern_match''] else [])
       @ (if ip then [''ip_address''] else [])
       @ (if ec then [''error_code''] else [])
       @ (if ua then [''user_agent''] else [])"







section \<open>Concrete runs\<close>

text \<open>
  An instance of the compiler for the concrete runs below, which use three patterns:
  \<open>[\<close>, which \<open>re\<close> rejects (an unterminated character set); \<open>\s+\<close>; and the literal
  \<open>error\<close>. It is not used at any other pattern.
\<close>

definition search_text :: "regex \<Rightarrow> string \<Rightarrow> string option" where
  "search_text r line = Option.bind (re_search r line) (\<lambda>m. group m 0)"

definition example_compile :: compiler where
  "example_compile p =
     (if p = [CHR 0x5C, CHR ''s'', CHR ''+''] then Some (search_text (Plus (Atom Space)))
      else if p = ''error'' then Some (search_text (lits ''error''))
      else None)"

definition text_of_lines :: "string list \<Rightarrow> string" where
  "text_of_lines ls = concat (map (\<lambda>l. l @ [newline]) ls)"

definition example_text :: string where
  "example_text = text_of_lines
     [''192.168.1.1 GET /index.html'',
      ''ERROR 4042: disk full'',
      ''User-Agent: Mozilla/5.0'',
      ''error in x192.168.1.1'',
      ''User-Agent:'',
      ''999.999.999.999'',
      ''10.0.0.7 ERROR 17 User-Agent: curl  '',
      ''nothing here'',
      ''ERROR12'',
      ''last line'']"

definition example_fs :: filesystem where
  "example_fs p =
     (if p = ''app.log'' then Inr example_text
      else if p = ''empty.log'' then Inr []
      else if p = ''secret.log'' then Inl (OtherError ''Permission denied'')
      else Inl FileNotFoundError)"

definition example_to_csv :: "string \<Rightarrow> exn option" where
  "example_to_csv p = None"

text \<open>A file of two lines that end in a blank and a newline.\<close>

definition raw_text :: string where
  "raw_text = text_of_lines [''abc '', ''User-Agent: x '']"

definition raw_fs :: filesystem where
  "raw_fs p = (if p = ''raw.log'' then Inr raw_text else Inl FileNotFoundError)"


section \<open>Notions for the proofs about the patterns\<close>

text \<open>
  The character before the position that is reached by reading \<open>w\<close> from a position
  whose previous character is \<open>p\<close>.
\<close>

definition prev_char :: "char option \<Rightarrow> string \<Rightarrow> char option" where
  "prev_char p w = (if w = [] then p else Some (last w))"








section \<open>Properties of the loop and of the function\<close>

subsection \<open>The loop body\<close>

lemma extract_line_Inl:
  "extract_line rc pat ip ec ua line = Inl e \<longleftrightarrow> truthy pat \<and> rc (the pat) = None \<and> e = ReError"
  by (auto simp: extract_line_def Let_def split: option.splits if_splits)

lemma extract_line_total:
  "\<not> truthy pat \<or> rc (the pat) \<noteq> None \<Longrightarrow> \<exists>e. extract_line rc pat ip ec ua line = Inr e"
  by (cases "extract_line rc pat ip ec ua line") (auto simp: extract_line_Inl)

lemma extract_line_keys:
  "extract_line rc pat ip ec ua line = Inr e \<Longrightarrow> map fst e = columns pat ip ec ua"
  by (auto simp: extract_line_def Let_def columns_def update_keys split: option.splits if_splits)

lemma extract_line_log_entry:
  "extract_line rc pat ip ec ua line = Inr e \<Longrightarrow> map_of e ''log_entry'' = Some (Some (strip line))"
  by (auto simp: extract_line_def Let_def update_conv' split: option.splits if_splits)

lemma extract_line_pattern_match:
  "extract_line rc pat ip ec ua line = Inr e \<Longrightarrow>
   map_of e ''pattern_match'' = (if truthy pat then Some (the (rc (the pat)) line) else None)"
  by (auto simp: extract_line_def Let_def update_conv' split: option.splits if_splits)

lemma extract_line_ip_address:
  "extract_line rc pat ip ec ua line = Inr e \<Longrightarrow>
   map_of e ''ip_address'' =
     (if ip then Some (Option.bind (re_search ip_re line) (\<lambda>m. group m 0)) else None)"
  by (auto simp: extract_line_def Let_def update_conv' split: option.splits if_splits)

lemma extract_line_error_code:
  "extract_line rc pat ip ec ua line = Inr e \<Longrightarrow>
   map_of e ''error_code'' =
     (if ec then Some (Option.bind (re_search error_code_re line) (\<lambda>m. group m 1)) else None)"
  by (auto simp: extract_line_def Let_def update_conv' split: option.splits if_splits)

lemma extract_line_user_agent:
  "extract_line rc pat ip ec ua line = Inr e \<Longrightarrow>
   map_of e ''user_agent'' =
     (if ua then Some (Option.bind (re_search user_agent_re line) (\<lambda>m. group m 1)) else None)"
  by (auto simp: extract_line_def Let_def update_conv' split: option.splits if_splits)

subsection \<open>The loop\<close>

lemma process_lines_Inr:
  "process_lines rc pat ip ec ua data lines = Inr df \<Longrightarrow>
   \<exists>es. df = data @ es \<and> map Inr es = map (extract_line rc pat ip ec ua) lines"
proof (induction lines arbitrary: data)
  case Nil
  then show ?case by simp
next
  case (Cons l ls)
  then obtain e where e: "extract_line rc pat ip ec ua l = Inr e"
    and rest: "process_lines rc pat ip ec ua (data @ [e]) ls = Inr df"
    by (auto split: sum.splits)
  from Cons.IH [OF rest] obtain es where "df = (data @ [e]) @ es"
    and "map Inr es = map (extract_line rc pat ip ec ua) ls" by blast
  with e have "df = data @ (e # es) \<and> map Inr (e # es) = map (extract_line rc pat ip ec ua) (l # ls)"
    by simp
  then show ?case by blast
qed

lemma process_lines_good:
  "\<not> truthy pat \<or> rc (the pat) \<noteq> None \<Longrightarrow>
   \<exists>es. process_lines rc pat ip ec ua data lines = Inr (data @ es)
        \<and> map Inr es = map (extract_line rc pat ip ec ua) lines"
proof (induction lines arbitrary: data)
  case Nil
  then show ?case by simp
next
  case (Cons l ls)
  from Cons.prems extract_line_total [where rc=rc and pat=pat] obtain e where e: "extract_line rc pat ip ec ua l = Inr e"
    by blast
  from Cons.IH [where data="data @ [e]"] Cons.prems obtain es
    where "process_lines rc pat ip ec ua (data @ [e]) ls = Inr ((data @ [e]) @ es)"
      and "map Inr es = map (extract_line rc pat ip ec ua) ls" by blast
  with e have "process_lines rc pat ip ec ua data (l # ls) = Inr (data @ (e # es))
      \<and> map Inr (e # es) = map (extract_line rc pat ip ec ua) (l # ls)"
    by simp
  then show ?case by blast
qed

lemma process_lines_bad:
  "truthy pat \<Longrightarrow> rc (the pat) = None \<Longrightarrow> lines \<noteq> [] \<Longrightarrow>
   process_lines rc pat ip ec ua data lines = Inl ReError"
  by (cases lines) (auto simp: extract_line_def Let_def)

subsection \<open>The function\<close>

lemma analyze_rows:
  assumes "analyze_log_file rc fs path pat lim ip ec ua = (logs, df)" and "df \<noteq> []"
  shows "\<exists>body. fs path = Inr body \<and> logs = []
          \<and> map Inr df = map (extract_line rc pat ip ec ua) (retained lim (readlines body))"
proof -
  from assms obtain d where d: "analyze_body rc fs path pat lim ip ec ua = Inr d"
    by (cases "analyze_body rc fs path pat lim ip ec ua")
       (auto simp: analyze_log_file_def split: exn.splits)
  with assms have "logs = []" "df = d" by (auto simp: analyze_log_file_def)
  moreover from d obtain body where "fs path = Inr body"
    and "process_lines rc pat ip ec ua [] (retained lim (readlines body)) = Inr d"
    by (auto simp: analyze_body_def split: sum.splits)
  ultimately show ?thesis using process_lines_Inr by fastforce
qed

lemma analyze_good:
  assumes "\<not> truthy pat \<or> rc (the pat) \<noteq> None" and "fs path = Inr body"
  shows "\<exists>df. analyze_log_file rc fs path pat lim ip ec ua = ([], df)
          \<and> map Inr df = map (extract_line rc pat ip ec ua) (retained lim (readlines body))"
  using process_lines_good [where rc=rc and pat=pat and ip=ip and ec=ec and ua=ua and data="[]"
      and lines="retained lim (readlines body)"] assms
  by (auto simp: analyze_log_file_def analyze_body_def)

lemma analyze_bad:
  assumes "truthy pat" and "rc (the pat) = None" and "fs path = Inr body"
    and "retained lim (readlines body) \<noteq> []"
  shows "analyze_log_file rc fs path pat lim ip ec ua = ([Logged Error (AnalysisError ReError)], [])"
  using process_lines_bad [where rc=rc and pat=pat and ip=ip and ec=ec and ua=ua and data="[]"
      and lines="retained lim (readlines body)"] assms
  by (simp add: analyze_log_file_def analyze_body_def)

lemma analyze_no_lines:
  assumes "fs path = Inr body" and "retained lim (readlines body) = []"
  shows "analyze_log_file rc fs path pat lim ip ec ua = ([], [])"
  using assms by (simp add: analyze_log_file_def analyze_body_def)

lemma analyze_unopened:
  assumes "fs path = Inl e"
  shows "analyze_log_file rc fs path pat lim ip ec ua =
           ([Logged Error (if e = FileNotFoundError then LogFileNotFound path else AnalysisError e)], [])"
  using assms by (cases e) (simp_all add: analyze_log_file_def analyze_body_def)

lemma analyze_row_line:
  assumes "analyze_log_file rc fs path pat lim ip ec ua = (logs, df)" and "e \<in> set df"
  shows "\<exists>body line. fs path = Inr body \<and> line \<in> set (retained lim (readlines body))
           \<and> extract_line rc pat ip ec ua line = Inr e"
proof -
  from assms(2) have "df \<noteq> []" by auto
  from analyze_rows [OF assms(1) this] obtain body where b: "fs path = Inr body"
    and m: "map Inr df = map (extract_line rc pat ip ec ua) (retained lim (readlines body))"
    by blast
  from m have "Inr ` set df = extract_line rc pat ip ec ua ` set (retained lim (readlines body))"
    by (metis set_map)
  with assms(2) have "Inr e \<in> extract_line rc pat ip ec ua ` set (retained lim (readlines body))"
    by blast
  with b show ?thesis by auto
qed

section \<open>Properties of the search\<close>

lemma prev_char_Nil [simp]: "prev_char p [] = p"
  by (simp add: prev_char_def)

lemma prev_char_Cons [simp]: "prev_char p (c # w) = prev_char (Some c) w"
  by (simp add: prev_char_def)

lemma prev_char_append [simp]: "prev_char (prev_char p u) v = prev_char p (u @ v)"
  by (simp add: prev_char_def)

lemma prev_char_snoc [simp]: "prev_char p (w @ [c]) = Some c"
  by (simp add: prev_char_def)







section \<open>Properties of the matcher\<close>

lemma atom_ok_fun [simp]:
  "atom_ok Space = is_space"
  "atom_ok Digit = is_digit"
  "atom_ok Dot = (\<lambda>c. c \<noteq> newline)"
  by (rule ext, simp)+



lemma rmatch_star_atom_Nil [simp]:
  "rmatch (Star (Atom a)) (p, [], g) = [(p, [], g)]"
  by simp













section \<open>The error-code pattern\<close>















section \<open>The user-agent pattern\<close>



















section \<open>The claims\<close>

text \<open>
  C9. The custom pattern rule is active only for a non-empty pattern: a run with the empty
  pattern is the run with no pattern (same log, same table), no record of it has a
  \<open>pattern_match\<close> field, and a record has that field exactly when the pattern is a
  non-empty string.
\<close>

theorem empty_pattern_disables_rule:
  "analyze_log_file rc fs path (Some []) lim ip ec ua = analyze_log_file rc fs path None lim ip ec ua
   \<and> (\<forall>e \<in> set (snd (analyze_log_file rc fs path (Some []) lim ip ec ua)).
         ''pattern_match'' \<notin> set (map fst e))
   \<and> (extract_line rc pat ip ec ua line = Inr e \<longrightarrow>
         (''pattern_match'' \<in> set (map fst e) \<longleftrightarrow> (\<exists>p. pat = Some p \<and> p \<noteq> [])))"
proof (intro conjI impI ballI)
  have "extract_line rc (Some []) ip ec ua = extract_line rc None ip ec ua"
    by (rule ext) (simp add: extract_line_def truthy_def)
  then have "process_lines rc (Some []) ip ec ua d ls = process_lines rc None ip ec ua d ls" for d ls
    by (induction ls arbitrary: d) (simp_all split: sum.splits)
  then show "analyze_log_file rc fs path (Some []) lim ip ec ua
               = analyze_log_file rc fs path None lim ip ec ua"
    by (cases "fs path") (simp_all add: analyze_log_file_def analyze_body_def)
next
  fix e' assume "e' \<in> set (snd (analyze_log_file rc fs path (Some []) lim ip ec ua))"
  then obtain line where "extract_line rc (Some []) ip ec ua line = Inr e'"
    using analyze_row_line [of rc fs path "Some []" lim ip ec ua _ _ e'] by (metis prod.collapse)
  from extract_line_keys [OF this] show "''pattern_match'' \<notin> set (map fst e')"
    by (simp add: columns_def truthy_def)
next
  assume "extract_line rc pat ip ec ua line = Inr e"
  from extract_line_keys [OF this]
  show "''pattern_match'' \<in> set (map fst e) \<longleftrightarrow> (\<exists>p. pat = Some p \<and> p \<noteq> [])"
    by (auto simp: columns_def truthy_def split: option.splits)
qed

theorem empty_pattern_disables_rule_witness:
  "extract_line example_compile (Some ''error'') True False False ''an error''
     = Inr [(''log_entry'', Some ''an error''), (''pattern_match'', Some ''error''),
            (''ip_address'', None)]
   \<and> ''pattern_match'' \<in> set (map fst [(''log_entry'', Some ''an error''),
            (''pattern_match'', Some ''error''), (''ip_address'', None)])
   \<and> snd (analyze_log_file example_compile example_fs ''app.log'' (Some []) (Some 1) True False False)
       = [[(''log_entry'', Some ''192.168.1.1 GET /index.html''), (''ip_address'', Some ''192.168.1.1'')]]
   \<and> analyze_log_file example_compile example_fs ''app.log'' (Some []) (Some 1) True False False
       = analyze_log_file example_compile example_fs ''app.log'' None (Some 1) True False False"
proof -
  have h: "extract_line example_compile (Some ''error'') True False False ''an error''
     = Inr [(''log_entry'', Some ''an error''), (''pattern_match'', Some ''error''),
            (''ip_address'', None)]"
    by code_simp
  have t: "snd (analyze_log_file example_compile example_fs ''app.log'' (Some []) (Some 1) True False False)
       = [[(''log_entry'', Some ''192.168.1.1 GET /index.html''), (''ip_address'', Some ''192.168.1.1'')]]"
    by code_simp
  from empty_pattern_disables_rule [where rc=example_compile and fs=example_fs and path="''app.log''"
      and lim="Some 1" and ip=True and ec=False and ua=False and pat="Some ''error''"
      and line="''an error''"] h t
  show ?thesis by simp
qed


text \<open>
  C7. Every record of the table has the same keys, the column set that the arguments fix:
  \<open>log_entry\<close>, then one key per active rule. Each record is that of a retained line of
  the file, and where an active rule finds no match in that line the field is \<open>None\<close>.
\<close>

theorem column_set_fixed:
  assumes "analyze_log_file rc fs path pat lim ip ec ua = (logs, df)"
  shows "\<forall>e \<in> set df.
           map fst e = columns pat ip ec ua
         \<and> (\<exists>body line. fs path = Inr body \<and> line \<in> set (retained lim (readlines body))
               \<and> extract_line rc pat ip ec ua line = Inr e
               \<and> (\<forall>f. truthy pat \<and> rc (the pat) = Some f \<and> f line = None
                      \<longrightarrow> map_of e ''pattern_match'' = Some None)
               \<and> (ip \<and> re_search ip_re line = None \<longrightarrow> map_of e ''ip_address'' = Some None)
               \<and> (ec \<and> re_search error_code_re line = None
                      \<longrightarrow> map_of e ''error_code'' = Some None)
               \<and> (ua \<and> re_search user_agent_re line = None
                      \<longrightarrow> map_of e ''user_agent'' = Some None))"
proof
  fix e assume "e \<in> set df"
  from analyze_row_line [OF assms this] obtain body line where b: "fs path = Inr body"
    and l: "line \<in> set (retained lim (readlines body))"
    and e: "extract_line rc pat ip ec ua line = Inr e" by blast
  have "\<forall>f. truthy pat \<and> rc (the pat) = Some f \<and> f line = None
          \<longrightarrow> map_of e ''pattern_match'' = Some None"
    using extract_line_pattern_match [OF e] by auto
  moreover have "ip \<and> re_search ip_re line = None \<longrightarrow> map_of e ''ip_address'' = Some None"
    using extract_line_ip_address [OF e] by auto
  moreover have "ec \<and> re_search error_code_re line = None \<longrightarrow> map_of e ''error_code'' = Some None"
    using extract_line_error_code [OF e] by auto
  moreover have "ua \<and> re_search user_agent_re line = None \<longrightarrow> map_of e ''user_agent'' = Some None"
    using extract_line_user_agent [OF e] by auto
  ultimately show "map fst e = columns pat ip ec ua
         \<and> (\<exists>body line. fs path = Inr body \<and> line \<in> set (retained lim (readlines body))
               \<and> extract_line rc pat ip ec ua line = Inr e
               \<and> (\<forall>f. truthy pat \<and> rc (the pat) = Some f \<and> f line = None
                      \<longrightarrow> map_of e ''pattern_match'' = Some None)
               \<and> (ip \<and> re_search ip_re line = None \<longrightarrow> map_of e ''ip_address'' = Some None)
               \<and> (ec \<and> re_search error_code_re line = None
                      \<longrightarrow> map_of e ''error_code'' = Some None)
               \<and> (ua \<and> re_search user_agent_re line = None
                      \<longrightarrow> map_of e ''user_agent'' = Some None))"
    using extract_line_keys [OF e] b l e by blast
qed

theorem column_set_fixed_witness:
  "analyze_log_file example_compile example_fs ''app.log'' (Some ''error'') (Some 2) True True False
     = ([], [[(''log_entry'', Some ''192.168.1.1 GET /index.html''), (''pattern_match'', None),
              (''ip_address'', Some ''192.168.1.1''), (''error_code'', None)],
             [(''log_entry'', Some ''ERROR 4042: disk full''), (''pattern_match'', None),
              (''ip_address'', None), (''error_code'', Some ''4042'')]])
   \<and> map fst [(''log_entry'', Some ''ERROR 4042: disk full''), (''pattern_match'', None),
              (''ip_address'', None), (''error_code'', Some ''4042'')]
       = columns (Some ''error'') True True False
   \<and> columns (Some ''error'') True True False
       = [''log_entry'', ''pattern_match'', ''ip_address'', ''error_code'']"
proof -
  have h: "analyze_log_file example_compile example_fs ''app.log'' (Some ''error'') (Some 2) True True False
     = ([], [[(''log_entry'', Some ''192.168.1.1 GET /index.html''), (''pattern_match'', None),
              (''ip_address'', Some ''192.168.1.1''), (''error_code'', None)],
             [(''log_entry'', Some ''ERROR 4042: disk full''), (''pattern_match'', None),
              (''ip_address'', None), (''error_code'', Some ''4042'')]])"
    by code_simp
  have c: "columns (Some ''error'') True True False
       = [''log_entry'', ''pattern_match'', ''ip_address'', ''error_code'']"
    by (simp add: columns_def truthy_def)
  from column_set_fixed [OF h] have "map fst [(''log_entry'', Some ''ERROR 4042: disk full''),
       (''pattern_match'', None), (''ip_address'', None), (''error_code'', Some ''4042'')]
       = columns (Some ''error'') True True False"
    by simp
  with h c show ?thesis by simp
qed

text \<open>The value of one rule's field depends on the line (and the pattern) only.\<close>

lemma extract_line_fields_independent:
  assumes "extract_line rc pat1 ip1 ec1 ua1 line = Inr e1"
    and "extract_line rc pat2 ip2 ec2 ua2 line = Inr e2"
  shows "(truthy pat1 \<and> pat1 = pat2 \<longrightarrow> map_of e1 ''pattern_match'' = map_of e2 ''pattern_match'')
       \<and> (ip1 \<and> ip2 \<longrightarrow> map_of e1 ''ip_address'' = map_of e2 ''ip_address'')
       \<and> (ec1 \<and> ec2 \<longrightarrow> map_of e1 ''error_code'' = map_of e2 ''error_code'')
       \<and> (ua1 \<and> ua2 \<longrightarrow> map_of e1 ''user_agent'' = map_of e2 ''user_agent'')"
  using extract_line_pattern_match [OF assms(1)] extract_line_pattern_match [OF assms(2)]
    extract_line_ip_address [OF assms(1)] extract_line_ip_address [OF assms(2)]
    extract_line_error_code [OF assms(1)] extract_line_error_code [OF assms(2)]
    extract_line_user_agent [OF assms(1)] extract_line_user_agent [OF assms(2)]
  by simp

text \<open>
  C8 as stated: the value of a rule's field is the same in any two runs that have the rule
  active, and no rule cuts another one short. On the first two lines of \<open>app.log\<close>, with
  the IPv4 rule active in both runs, the run without pattern stores \<open>192.168.1.1\<close> for the
  first line; the run with the malformed pattern \<open>[\<close> stores nothing for it, since the
  search of the custom pattern raises before the IPv4 rule is reached.
\<close>

theorem rules_independent_counterexample:
  "analyze_log_file example_compile example_fs ''app.log'' None (Some 2) True False False
     = ([], [[(''log_entry'', Some ''192.168.1.1 GET /index.html''),
              (''ip_address'', Some ''192.168.1.1'')],
             [(''log_entry'', Some ''ERROR 4042: disk full''), (''ip_address'', None)]])
   \<and> analyze_log_file example_compile example_fs ''app.log'' (Some ''['') (Some 2) True False False
     = ([Logged Error (AnalysisError ReError)], [])
   \<and> extract_line example_compile None True False False
        (''192.168.1.1 GET /index.html'' @ [newline])
     = Inr [(''log_entry'', Some ''192.168.1.1 GET /index.html''),
            (''ip_address'', Some ''192.168.1.1'')]
   \<and> extract_line example_compile (Some ''['') True False False
        (''192.168.1.1 GET /index.html'' @ [newline])
     = Inl ReError"
proof (intro conjI)
  show "analyze_log_file example_compile example_fs ''app.log'' None (Some 2) True False False
     = ([], [[(''log_entry'', Some ''192.168.1.1 GET /index.html''),
              (''ip_address'', Some ''192.168.1.1'')],
             [(''log_entry'', Some ''ERROR 4042: disk full''), (''ip_address'', None)]])"
    by code_simp
  show "analyze_log_file example_compile example_fs ''app.log'' (Some ''['') (Some 2) True False False
     = ([Logged Error (AnalysisError ReError)], [])"
    by code_simp
  show "extract_line example_compile None True False False
        (''192.168.1.1 GET /index.html'' @ [newline])
     = Inr [(''log_entry'', Some ''192.168.1.1 GET /index.html''),
            (''ip_address'', Some ''192.168.1.1'')]"
    by code_simp
  show "extract_line example_compile (Some ''['') True False False
        (''192.168.1.1 GET /index.html'' @ [newline])
     = Inl ReError"
    by code_simp
qed

text \<open>
  C8, amended. Among the runs whose custom pattern is absent, empty or well-formed, the
  rules are independent: two such runs on the same file and limit both log nothing and
  yield one row per retained line, and row by row the field of a rule that is active in
  both runs has the same value in both, whatever the other rules are (for the custom
  pattern, when both runs have the same pattern). A malformed custom pattern does cut the
  other rules short: with at least one retained line the run logs the error and returns
  the empty table, so no value of any rule is stored.
\<close>

theorem rules_independent_compiled:
  assumes "\<not> truthy pat1 \<or> rc (the pat1) \<noteq> None"
    and "\<not> truthy pat2 \<or> rc (the pat2) \<noteq> None"
    and "fs path = Inr body"
  shows "(\<exists>df1 df2.
            analyze_log_file rc fs path pat1 lim ip1 ec1 ua1 = ([], df1)
          \<and> analyze_log_file rc fs path pat2 lim ip2 ec2 ua2 = ([], df2)
          \<and> length df1 = length (retained lim (readlines body))
          \<and> length df2 = length (retained lim (readlines body))
          \<and> (\<forall>i < length (retained lim (readlines body)).
                (truthy pat1 \<and> pat1 = pat2
                   \<longrightarrow> map_of (df1 ! i) ''pattern_match'' = map_of (df2 ! i) ''pattern_match'')
              \<and> (ip1 \<and> ip2
                   \<longrightarrow> map_of (df1 ! i) ''ip_address'' = map_of (df2 ! i) ''ip_address'')
              \<and> (ec1 \<and> ec2
                   \<longrightarrow> map_of (df1 ! i) ''error_code'' = map_of (df2 ! i) ''error_code'')
              \<and> (ua1 \<and> ua2
                   \<longrightarrow> map_of (df1 ! i) ''user_agent'' = map_of (df2 ! i) ''user_agent'')))
       \<and> (truthy pat \<and> rc (the pat) = None \<and> retained lim (readlines body) \<noteq> []
            \<longrightarrow> analyze_log_file rc fs path pat lim ip ec ua
                  = ([Logged Error (AnalysisError ReError)], []))"
proof (rule conjI)
  let ?ls = "retained lim (readlines body)"
  from analyze_good [where rc=rc and pat=pat1 and fs=fs and path=path and body=body
      and lim=lim and ip=ip1 and ec=ec1 and ua=ua1] assms(1,3)
  obtain df1 where a1: "analyze_log_file rc fs path pat1 lim ip1 ec1 ua1 = ([], df1)"
    and m1: "map Inr df1 = map (extract_line rc pat1 ip1 ec1 ua1) ?ls" by blast
  from analyze_good [where rc=rc and pat=pat2 and fs=fs and path=path and body=body
      and lim=lim and ip=ip2 and ec=ec2 and ua=ua2] assms(2,3)
  obtain df2 where a2: "analyze_log_file rc fs path pat2 lim ip2 ec2 ua2 = ([], df2)"
    and m2: "map Inr df2 = map (extract_line rc pat2 ip2 ec2 ua2) ?ls" by blast
  from m1 have l1: "length df1 = length ?ls" by (metis length_map)
  from m2 have l2: "length df2 = length ?ls" by (metis length_map)
  have "(truthy pat1 \<and> pat1 = pat2
               \<longrightarrow> map_of (df1 ! i) ''pattern_match'' = map_of (df2 ! i) ''pattern_match'')
          \<and> (ip1 \<and> ip2 \<longrightarrow> map_of (df1 ! i) ''ip_address'' = map_of (df2 ! i) ''ip_address'')
          \<and> (ec1 \<and> ec2 \<longrightarrow> map_of (df1 ! i) ''error_code'' = map_of (df2 ! i) ''error_code'')
          \<and> (ua1 \<and> ua2 \<longrightarrow> map_of (df1 ! i) ''user_agent'' = map_of (df2 ! i) ''user_agent'')"
    (is "?Q i") if "i < length ?ls" for i
  proof -
    from that l1 l2 have i: "i < length df1" "i < length df2" by simp_all
    from m1 that i have a: "extract_line rc pat1 ip1 ec1 ua1 (?ls ! i) = Inr (df1 ! i)"
      by (metis nth_map)
    from m2 that i have b: "extract_line rc pat2 ip2 ec2 ua2 (?ls ! i) = Inr (df2 ! i)"
      by (metis nth_map)
    from extract_line_fields_independent [OF a b] show ?thesis .
  qed
  then have q: "\<forall>i < length ?ls. ?Q i" by (intro allI impI)
  show "\<exists>df1 df2.
            analyze_log_file rc fs path pat1 lim ip1 ec1 ua1 = ([], df1)
          \<and> analyze_log_file rc fs path pat2 lim ip2 ec2 ua2 = ([], df2)
          \<and> length df1 = length ?ls
          \<and> length df2 = length ?ls
          \<and> (\<forall>i < length ?ls.
                (truthy pat1 \<and> pat1 = pat2
                   \<longrightarrow> map_of (df1 ! i) ''pattern_match'' = map_of (df2 ! i) ''pattern_match'')
              \<and> (ip1 \<and> ip2
                   \<longrightarrow> map_of (df1 ! i) ''ip_address'' = map_of (df2 ! i) ''ip_address'')
              \<and> (ec1 \<and> ec2
                   \<longrightarrow> map_of (df1 ! i) ''error_code'' = map_of (df2 ! i) ''error_code'')
              \<and> (ua1 \<and> ua2
                   \<longrightarrow> map_of (df1 ! i) ''user_agent'' = map_of (df2 ! i) ''user_agent''))"
    by (rule exI [of _ df1], rule exI [of _ df2]) (intro conjI a1 a2 l1 l2 q)
next
  show "truthy pat \<and> rc (the pat) = None \<and> retained lim (readlines body) \<noteq> []
            \<longrightarrow> analyze_log_file rc fs path pat lim ip ec ua
                  = ([Logged Error (AnalysisError ReError)], [])"
    using analyze_bad [where rc=rc and pat=pat and fs=fs and path=path and body=body
        and lim=lim and ip=ip and ec=ec and ua=ua] assms(3) by blast
qed

theorem rules_independent_compiled_witness:
  "analyze_log_file example_compile example_fs ''app.log'' None (Some 2) True False False
     = ([], [[(''log_entry'', Some ''192.168.1.1 GET /index.html''),
              (''ip_address'', Some ''192.168.1.1'')],
             [(''log_entry'', Some ''ERROR 4042: disk full''), (''ip_address'', None)]])
   \<and> analyze_log_file example_compile example_fs ''app.log'' (Some ''error'') (Some 2) True True True
     = ([], [[(''log_entry'', Some ''192.168.1.1 GET /index.html''), (''pattern_match'', None),
              (''ip_address'', Some ''192.168.1.1''), (''error_code'', None), (''user_agent'', None)],
             [(''log_entry'', Some ''ERROR 4042: disk full''), (''pattern_match'', None),
              (''ip_address'', None), (''error_code'', Some ''4042''), (''user_agent'', None)]])
   \<and> length (retained (Some 2) (readlines example_text)) = 2
   \<and> map_of [(''log_entry'', Some ''192.168.1.1 GET /index.html''),
              (''ip_address'', Some ''192.168.1.1'')] ''ip_address''
     = map_of [(''log_entry'', Some ''192.168.1.1 GET /index.html''), (''pattern_match'', None),
              (''ip_address'', Some ''192.168.1.1''), (''error_code'', None), (''user_agent'', None)]
         ''ip_address''"
proof -
  let ?c1 = "[[(''log_entry'', Some ''192.168.1.1 GET /index.html''),
              (''ip_address'', Some ''192.168.1.1'')],
             [(''log_entry'', Some ''ERROR 4042: disk full''), (''ip_address'', None)]]"
  let ?c2 = "[[(''log_entry'', Some ''192.168.1.1 GET /index.html''), (''pattern_match'', None),
              (''ip_address'', Some ''192.168.1.1''), (''error_code'', None), (''user_agent'', None)],
             [(''log_entry'', Some ''ERROR 4042: disk full''), (''pattern_match'', None),
              (''ip_address'', None), (''error_code'', Some ''4042''), (''user_agent'', None)]]"
  have r1: "analyze_log_file example_compile example_fs ''app.log'' None (Some 2) True False False
     = ([], ?c1)"
    by code_simp
  have r2: "analyze_log_file example_compile example_fs ''app.log'' (Some ''error'') (Some 2)
       True True True = ([], ?c2)"
    by code_simp
  have n: "length (retained (Some 2) (readlines example_text)) = 2" by code_simp
  have p1: "\<not> truthy None \<or> example_compile (the None) \<noteq> None" by (simp add: truthy_def)
  have p2: "\<not> truthy (Some ''error'') \<or> example_compile (the (Some ''error'')) \<noteq> None"
    by (simp add: example_compile_def)
  have f: "example_fs ''app.log'' = Inr example_text" by (simp add: example_fs_def)
  from rules_independent_compiled [where rc=example_compile and fs=example_fs
      and path="''app.log''" and body=example_text and ?pat1.0=None and ?pat2.0="Some ''error''"
      and lim="Some 2" and ?ip1.0=True and ?ec1.0=False and ?ua1.0=False
      and ?ip2.0=True and ?ec2.0=True and ?ua2.0=True, OF p1 p2 f, THEN conjunct1]
  obtain df1 df2 where
    a1: "analyze_log_file example_compile example_fs ''app.log'' None (Some 2) True False False
           = ([], df1)"
    and a2: "analyze_log_file example_compile example_fs ''app.log'' (Some ''error'') (Some 2)
           True True True = ([], df2)"
    and q: "\<forall>i < length (retained (Some 2) (readlines example_text)).
              (True \<and> True \<longrightarrow> map_of (df1 ! i) ''ip_address'' = map_of (df2 ! i) ''ip_address'')"
    by blast
  from a1 r1 have d1: "df1 = ?c1" by simp
  from a2 r2 have d2: "df2 = ?c2" by simp
  from q n have "map_of (df1 ! 0) ''ip_address'' = map_of (df2 ! 0) ''ip_address''" by simp
  with d1 d2 have "map_of [(''log_entry'', Some ''192.168.1.1 GET /index.html''),
              (''ip_address'', Some ''192.168.1.1'')] ''ip_address''
     = map_of [(''log_entry'', Some ''192.168.1.1 GET /index.html''), (''pattern_match'', None),
              (''ip_address'', Some ''192.168.1.1''), (''error_code'', None), (''user_agent'', None)]
         ''ip_address''"
    by (simp only: nth_Cons_0)
  with r1 r2 n show ?thesis by (intro conjI)
qed

text \<open>
  C10. In a run, row \<open>i\<close> of the table belongs to line \<open>i\<close> of what \<open>readlines\<close>
  returned (cut to the limit), and every rule searches that line as it was read, with its
  blanks and its newline: \<open>log_entry\<close> is the stripped line, and the field of each active
  rule is the result of the search in the line itself. So a match can have characters that
  \<open>log_entry\<close> has not. In the run on the file \<open>raw.log\<close>, whose lines are \<open>abc \n\<close> and
  \<open>User-Agent: x \n\<close>, the pattern \<open>\s+\<close> matches the blank and the newline of the first
  line, whose \<open>log_entry\<close> is \<open>abc\<close>, and the user agent of the second line is \<open>x\<close> with
  the blank after it, where the search in the stripped line would give \<open>x\<close>.
\<close>

theorem rules_search_raw_line:
  "(analyze_log_file rc fs path pat lim ip ec ua = (logs, df) \<longrightarrow>
      (\<forall>i < length df. \<exists>body.
          fs path = Inr body
        \<and> length df = length (retained lim (readlines body))
        \<and> map_of (df ! i) ''log_entry''
            = Some (Some (strip (retained lim (readlines body) ! i)))
        \<and> (truthy pat \<longrightarrow>
              (\<exists>f. rc (the pat) = Some f
                 \<and> map_of (df ! i) ''pattern_match''
                     = Some (f (retained lim (readlines body) ! i))))
        \<and> (ip \<longrightarrow> map_of (df ! i) ''ip_address''
                    = Some (Option.bind (re_search ip_re (retained lim (readlines body) ! i))
                              (\<lambda>m. group m 0)))
        \<and> (ec \<longrightarrow> map_of (df ! i) ''error_code''
                    = Some (Option.bind
                              (re_search error_code_re (retained lim (readlines body) ! i))
                              (\<lambda>m. group m 1)))
        \<and> (ua \<longrightarrow> map_of (df ! i) ''user_agent''
                    = Some (Option.bind
                              (re_search user_agent_re (retained lim (readlines body) ! i))
                              (\<lambda>m. group m 1)))))
   \<and> raw_fs ''raw.log'' = Inr raw_text
   \<and> readlines raw_text = [''abc '' @ [newline], ''User-Agent: x '' @ [newline]]
   \<and> analyze_log_file example_compile raw_fs ''raw.log'' (Some [CHR 0x5C, CHR ''s'', CHR ''+''])
        None False False True
       = ([], [[(''log_entry'', Some ''abc''), (''pattern_match'', Some ('' '' @ [newline])),
                (''user_agent'', None)],
               [(''log_entry'', Some ''User-Agent: x''), (''pattern_match'', Some '' ''),
                (''user_agent'', Some ''x '')]])
   \<and> \<not> set ('' '' @ [newline]) \<subseteq> set ''abc''
   \<and> Option.bind (re_search user_agent_re (strip (''User-Agent: x '' @ [newline])))
         (\<lambda>m. group m 1) = Some ''x''"
proof (intro conjI impI allI)
  fix i
  assume a: "analyze_log_file rc fs path pat lim ip ec ua = (logs, df)" and i: "i < length df"
  from i have "df \<noteq> []" by auto
  from analyze_rows [OF a this] obtain body where b: "fs path = Inr body"
    and m: "map Inr df = map (extract_line rc pat ip ec ua) (retained lim (readlines body))"
    by blast
  let ?ls = "retained lim (readlines body)"
  from m have l: "length df = length ?ls" by (metis length_map)
  with m i have e: "extract_line rc pat ip ec ua (?ls ! i) = Inr (df ! i)"
    by (metis nth_map)
  have 1: "map_of (df ! i) ''log_entry'' = Some (Some (strip (?ls ! i)))"
    by (rule extract_line_log_entry [OF e])
  have 2: "truthy pat \<longrightarrow>
      (\<exists>f. rc (the pat) = Some f \<and> map_of (df ! i) ''pattern_match'' = Some (f (?ls ! i)))"
  proof
    assume t: "truthy pat"
    with e have "rc (the pat) \<noteq> None"
      using extract_line_Inl [of rc pat ip ec ua "?ls ! i" ReError] by auto
    with extract_line_pattern_match [OF e] t
    show "\<exists>f. rc (the pat) = Some f \<and> map_of (df ! i) ''pattern_match'' = Some (f (?ls ! i))"
      by auto
  qed
  have 3: "ip \<longrightarrow> map_of (df ! i) ''ip_address''
      = Some (Option.bind (re_search ip_re (?ls ! i)) (\<lambda>m. group m 0))"
    using extract_line_ip_address [OF e] by simp
  have 4: "ec \<longrightarrow> map_of (df ! i) ''error_code''
      = Some (Option.bind (re_search error_code_re (?ls ! i)) (\<lambda>m. group m 1))"
    using extract_line_error_code [OF e] by simp
  have 5: "ua \<longrightarrow> map_of (df ! i) ''user_agent''
      = Some (Option.bind (re_search user_agent_re (?ls ! i)) (\<lambda>m. group m 1))"
    using extract_line_user_agent [OF e] by simp
  show "\<exists>body.
          fs path = Inr body
        \<and> length df = length (retained lim (readlines body))
        \<and> map_of (df ! i) ''log_entry''
            = Some (Some (strip (retained lim (readlines body) ! i)))
        \<and> (truthy pat \<longrightarrow>
              (\<exists>f. rc (the pat) = Some f
                 \<and> map_of (df ! i) ''pattern_match''
                     = Some (f (retained lim (readlines body) ! i))))
        \<and> (ip \<longrightarrow> map_of (df ! i) ''ip_address''
                    = Some (Option.bind (re_search ip_re (retained lim (readlines body) ! i))
                              (\<lambda>m. group m 0)))
        \<and> (ec \<longrightarrow> map_of (df ! i) ''error_code''
                    = Some (Option.bind
                              (re_search error_code_re (retained lim (readlines body) ! i))
                              (\<lambda>m. group m 1)))
        \<and> (ua \<longrightarrow> map_of (df ! i) ''user_agent''
                    = Some (Option.bind
                              (re_search user_agent_re (retained lim (readlines body) ! i))
                              (\<lambda>m. group m 1)))"
    by (rule exI [of _ body]) (intro conjI b l 1 2 3 4 5)
next
  show "raw_fs ''raw.log'' = Inr raw_text" by (simp add: raw_fs_def)
  show "readlines raw_text = [''abc '' @ [newline], ''User-Agent: x '' @ [newline]]"
    by code_simp
  show "analyze_log_file example_compile raw_fs ''raw.log'' (Some [CHR 0x5C, CHR ''s'', CHR ''+''])
        None False False True
       = ([], [[(''log_entry'', Some ''abc''), (''pattern_match'', Some ('' '' @ [newline])),
                (''user_agent'', None)],
               [(''log_entry'', Some ''User-Agent: x''), (''pattern_match'', Some '' ''),
                (''user_agent'', Some ''x '')]])"
    by code_simp
  show "\<not> set ('' '' @ [newline]) \<subseteq> set ''abc''"
    by (simp add: newline_def)
  show "Option.bind (re_search user_agent_re (strip (''User-Agent: x '' @ [newline])))
          (\<lambda>m. group m 1) = Some ''x''"
    by code_simp
qed

theorem rules_search_raw_line_witness:
  "analyze_log_file example_compile raw_fs ''raw.log'' None None False False True
     = ([], [[(''log_entry'', Some ''abc''), (''user_agent'', None)],
             [(''log_entry'', Some ''User-Agent: x''), (''user_agent'', Some ''x '')]])
   \<and> retained None (readlines raw_text) ! 1 = ''User-Agent: x '' @ [newline]
   \<and> Option.bind (re_search user_agent_re (retained None (readlines raw_text) ! 1))
         (\<lambda>m. group m 1) = Some ''x ''
   \<and> strip (retained None (readlines raw_text) ! 1) = ''User-Agent: x''"
proof -
  let ?df = "[[(''log_entry'', Some ''abc''), (''user_agent'', None)],
             [(''log_entry'', Some ''User-Agent: x''), (''user_agent'', Some ''x '')]]"
  have h: "analyze_log_file example_compile raw_fs ''raw.log'' None None False False True
     = ([], ?df)"
    by code_simp
  have l: "retained None (readlines raw_text) ! 1 = ''User-Agent: x '' @ [newline]"
    by code_simp
  have f: "raw_fs ''raw.log'' = Inr raw_text" by (simp add: raw_fs_def)
  from rules_search_raw_line [where rc=example_compile and fs=raw_fs and path="''raw.log''"
      and pat=None and lim=None and ip=False and ec=False and ua=True and logs="[]"
      and df="?df", THEN conjunct1, rule_format, OF h, of 1]
  obtain body where b: "raw_fs ''raw.log'' = Inr body"
    and e: "map_of (?df ! 1) ''log_entry''
              = Some (Some (strip (retained None (readlines body) ! 1)))"
    and u: "map_of (?df ! 1) ''user_agent''
              = Some (Option.bind (re_search user_agent_re (retained None (readlines body) ! 1))
                        (\<lambda>m. group m 1))"
    by auto
  from b f have body: "body = raw_text" by simp
  from u body have "Option.bind (re_search user_agent_re (retained None (readlines raw_text) ! 1))
         (\<lambda>m. group m 1) = Some ''x ''"
    by simp
  moreover from e body have "strip (retained None (readlines raw_text) ! 1) = ''User-Agent: x''"
    by simp
  ultimately show ?thesis using h l by (intro conjI)
qed

text \<open>
  C5 as stated: with limit 3 and the ten lines of \<open>app.log\<close> the table has 3 rows. It has
  none when the custom pattern is malformed.
\<close>

theorem limit_rows_counterexample:
  "example_fs ''app.log'' = Inr example_text
   \<and> length (readlines example_text) = 10
   \<and> analyze_log_file example_compile example_fs ''app.log'' (Some ''['') (Some 3) False False False
       = ([Logged Error (AnalysisError ReError)], [])
   \<and> length (snd (analyze_log_file example_compile example_fs ''app.log'' (Some ''['') (Some 3)
                    False False False)) \<noteq> min 3 (length (readlines example_text))"
proof -
  have a: "example_fs ''app.log'' = Inr example_text" by (simp add: example_fs_def)
  have b: "length (readlines example_text) = 10" by code_simp
  have c: "analyze_log_file example_compile example_fs ''app.log'' (Some ''['') (Some 3)
             False False False = ([Logged Error (AnalysisError ReError)], [])"
    by code_simp
  from a b c show ?thesis by simp
qed

text \<open>
  C5, amended. When the custom pattern is absent, empty or well-formed, the run on a file
  of K lines with a positive limit N logs nothing and its table has exactly min(N, K)
  rows, which are the records of the first min(N, K) lines in file order. (The lines are
  cut before the loop runs over them.)
\<close>

theorem limit_keeps_first_lines:
  assumes "\<not> truthy pat \<or> rc (the pat) \<noteq> None" and "fs path = Inr body" and "0 < n"
  shows "\<exists>df. analyze_log_file rc fs path pat (Some n) ip ec ua = ([], df)
          \<and> length df = min (nat n) (length (readlines body))
          \<and> map Inr df = map (extract_line rc pat ip ec ua) (take (nat n) (readlines body))"
proof -
  from assms(3) have r: "retained (Some n) (readlines body) = take (nat n) (readlines body)"
    by (simp add: retained_def truthy_int_def slice_to_def)
  from analyze_good [where rc=rc and pat=pat and fs=fs and path=path and body=body
      and lim="Some n" and ip=ip and ec=ec and ua=ua] assms(1,2)
  obtain df where d: "analyze_log_file rc fs path pat (Some n) ip ec ua = ([], df)"
    and m: "map Inr df = map (extract_line rc pat ip ec ua) (retained (Some n) (readlines body))"
    by blast
  from m r have m': "map Inr df = map (extract_line rc pat ip ec ua) (take (nat n) (readlines body))"
    by simp
  then have "length df = length (take (nat n) (readlines body))" by (metis length_map)
  then have "length df = min (nat n) (length (readlines body))" by simp
  with d m' show ?thesis by blast
qed

theorem limit_keeps_first_lines_witness:
  "analyze_log_file example_compile example_fs ''app.log'' (Some ''error'') (Some 3) False True False
     = ([], [[(''log_entry'', Some ''192.168.1.1 GET /index.html''), (''pattern_match'', None),
              (''error_code'', None)],
             [(''log_entry'', Some ''ERROR 4042: disk full''), (''pattern_match'', None),
              (''error_code'', Some ''4042'')],
             [(''log_entry'', Some ''User-Agent: Mozilla/5.0''), (''pattern_match'', None),
              (''error_code'', None)]])
   \<and> length (snd (analyze_log_file example_compile example_fs ''app.log'' (Some ''error'') (Some 3)
                    False True False)) = min 3 (length (readlines example_text))
   \<and> length (readlines example_text) = 10"
proof -
  have p: "\<not> truthy (Some ''error'') \<or> example_compile (the (Some ''error'')) \<noteq> None"
    by (simp add: example_compile_def)
  have a: "example_fs ''app.log'' = Inr example_text" by (simp add: example_fs_def)
  have b: "length (readlines example_text) = 10" by code_simp
  have c: "analyze_log_file example_compile example_fs ''app.log'' (Some ''error'') (Some 3)
             False True False
     = ([], [[(''log_entry'', Some ''192.168.1.1 GET /index.html''), (''pattern_match'', None),
              (''error_code'', None)],
             [(''log_entry'', Some ''ERROR 4042: disk full''), (''pattern_match'', None),
              (''error_code'', Some ''4042'')],
             [(''log_entry'', Some ''User-Agent: Mozilla/5.0''), (''pattern_match'', None),
              (''error_code'', None)]])"
    by code_simp
  from limit_keeps_first_lines [where rc=example_compile and pat="Some ''error''" and n=3
      and fs=example_fs and path="''app.log''" and body=example_text
      and ip=False and ec=True and ua=False, OF p a]
  have "length (snd (analyze_log_file example_compile example_fs ''app.log'' (Some ''error'') (Some 3)
                    False True False)) = min 3 (length (readlines example_text))"
    by auto
  with b c show ?thesis by simp
qed

text \<open>
  C6. When the file cannot be opened (it does not exist, or opening or reading it raises
  anything else), \<open>analyze_log_file\<close> returns the empty table and logs one error; it
  returns, so nothing is raised past it. \<open>main\<close> on that path never calls \<open>to_csv\<close>,
  whatever the output argument is, and, when the limit passes its validation so that the
  run takes place, logs that error and then the no-data warning, and nothing else.
\<close>

theorem unopened_file_yields_no_data:
  assumes "fs path = Inl x"
  shows "analyze_log_file rc fs path pat lim ip ec ua
           = ([Logged Error (if x = FileNotFoundError then LogFileNotFound path
                             else AnalysisError x)], [])
       \<and> (log_file a = path \<longrightarrow>
            (\<forall>p df. ToCsv p df \<notin> set (main rc fs to_csv a))
          \<and> (\<not> (\<exists>n. limit a = Some n \<and> n \<le> 0) \<longrightarrow>
               main rc fs to_csv a
                 = [Logged Error (if x = FileNotFoundError then LogFileNotFound path
                                  else AnalysisError x),
                    Logged Warning NoData]))"
proof (intro conjI impI allI)
  show "analyze_log_file rc fs path pat lim ip ec ua
           = ([Logged Error (if x = FileNotFoundError then LogFileNotFound path
                             else AnalysisError x)], [])"
    by (rule analyze_unopened [where fs=fs and path=path, OF assms])
next
  fix p df assume "log_file a = path"
  with assms have "fs (log_file a) = Inl x" by simp
  from analyze_unopened [where fs=fs and path="log_file a" and e=x, OF this]
  show "ToCsv p df \<notin> set (main rc fs to_csv a)"
    by (auto simp: main_def df_empty_def split: option.splits)
next
  assume "log_file a = path" and "\<not> (\<exists>n. limit a = Some n \<and> n \<le> 0)"
  with assms have "fs (log_file a) = Inl x" by simp
  from analyze_unopened [where fs=fs and path="log_file a" and e=x, OF this] \<open>log_file a = path\<close> \<open>\<not> (\<exists>n. limit a = Some n \<and> n \<le> 0)\<close>
  show "main rc fs to_csv a
          = [Logged Error (if x = FileNotFoundError then LogFileNotFound path else AnalysisError x),
             Logged Warning NoData]"
    by (auto simp: main_def df_empty_def split: option.splits)
qed

theorem unopened_file_yields_no_data_witness:
  "example_fs ''missing.log'' = Inl FileNotFoundError
   \<and> analyze_log_file example_compile example_fs ''missing.log'' None None True False False
       = ([Logged Error (LogFileNotFound ''missing.log'')], [])
   \<and> main example_compile example_fs example_to_csv
        \<lparr>log_file = ''missing.log'', pattern = None, output_file = Some ''out.csv'', limit = None,
         ip_address = True, error_codes = False, user_agents = False\<rparr>
       = [Logged Error (LogFileNotFound ''missing.log''), Logged Warning NoData]"
proof -
  have h: "example_fs ''missing.log'' = Inl FileNotFoundError" by (simp add: example_fs_def)
  from unopened_file_yields_no_data [where fs=example_fs and path="''missing.log''"
      and x=FileNotFoundError and rc=example_compile and pat=None and lim=None
      and ip=True and ec=False and ua=False and to_csv=example_to_csv
      and a="\<lparr>log_file = ''missing.log'', pattern = None, output_file = Some ''out.csv'',
               limit = None, ip_address = True, error_codes = False, user_agents = False\<rparr>"] h
  show ?thesis by simp
qed

text \<open>
  C1 as stated: a malformed pattern is an error reported before any line is processed. On
  an empty file the run with the malformed pattern \<open>[\<close> reports nothing at all.
\<close>

theorem malformed_pattern_counterexample:
  "example_compile ''['' = None
   \<and> example_fs ''empty.log'' = Inr []
   \<and> analyze_log_file example_compile example_fs ''empty.log'' (Some ''['') None True True True
       = ([], [])
   \<and> main example_compile example_fs example_to_csv
        \<lparr>log_file = ''empty.log'', pattern = Some ''['', output_file = None, limit = None,
         ip_address = True, error_codes = True, user_agents = True\<rparr>
       = [Logged Warning NoData]"
proof -
  have "analyze_log_file example_compile example_fs ''empty.log'' (Some ''['') None True True True
       = ([], [])"
    by code_simp
  then show ?thesis
    by (simp add: example_compile_def example_fs_def main_def df_empty_def)
qed

text \<open>
  C1, amended. The pattern is compiled by the first search, inside the loop. So when a
  non-empty pattern is malformed and the file opens: if at least one line is retained, the
  body of the loop raises on the first of them, the run logs that error and returns the
  empty table, and no record of any line is kept; if no line is retained, the run logs
  nothing and returns the empty table. When the file does not open, the error logged is
  that of the file.
\<close>

theorem malformed_pattern_error:
  assumes "rc p = None" and "p \<noteq> []"
  shows "(fs path = Inr body \<and> retained lim (readlines body) \<noteq> [] \<longrightarrow>
            extract_line rc (Some p) ip ec ua (hd (retained lim (readlines body))) = Inl ReError
          \<and> analyze_log_file rc fs path (Some p) lim ip ec ua
              = ([Logged Error (AnalysisError ReError)], []))
       \<and> (fs path = Inr body \<and> retained lim (readlines body) = [] \<longrightarrow>
            analyze_log_file rc fs path (Some p) lim ip ec ua = ([], []))
       \<and> (fs path = Inl x \<longrightarrow>
            analyze_log_file rc fs path (Some p) lim ip ec ua
              = ([Logged Error (if x = FileNotFoundError then LogFileNotFound path
                                else AnalysisError x)], []))"
proof (intro conjI impI)
  from assms have t: "truthy (Some p)" and n: "rc (the (Some p)) = None"
    by (simp_all add: truthy_def)
  show "extract_line rc (Some p) ip ec ua (hd (retained lim (readlines body))) = Inl ReError"
    using t n by (simp add: extract_line_Inl)
  show "analyze_log_file rc fs path (Some p) lim ip ec ua = ([Logged Error (AnalysisError ReError)], [])"
    if "fs path = Inr body \<and> retained lim (readlines body) \<noteq> []"
    using analyze_bad [where rc=rc and pat="Some p" and fs=fs and path=path and body=body
        and lim=lim and ip=ip and ec=ec and ua=ua] t n that by simp
  show "analyze_log_file rc fs path (Some p) lim ip ec ua = ([], [])"
    if "fs path = Inr body \<and> retained lim (readlines body) = []"
    using analyze_no_lines [of fs path body lim] that by simp
  show "analyze_log_file rc fs path (Some p) lim ip ec ua
          = ([Logged Error (if x = FileNotFoundError then LogFileNotFound path
                            else AnalysisError x)], [])"
    if "fs path = Inl x"
    by (rule analyze_unopened [where fs=fs and path=path, OF that])
qed

theorem malformed_pattern_error_witness:
  "example_compile ''['' = None
   \<and> example_fs ''app.log'' = Inr example_text
   \<and> retained (Some 3) (readlines example_text)
       = [''192.168.1.1 GET /index.html'' @ [newline], ''ERROR 4042: disk full'' @ [newline],
          ''User-Agent: Mozilla/5.0'' @ [newline]]
   \<and> analyze_log_file example_compile example_fs ''app.log'' (Some ''['') (Some 3) True True True
       = ([Logged Error (AnalysisError ReError)], [])"
proof -
  have c: "example_compile ''['' = None" by (simp add: example_compile_def)
  have a: "example_fs ''app.log'' = Inr example_text" by (simp add: example_fs_def)
  have r: "retained (Some 3) (readlines example_text)
       = [''192.168.1.1 GET /index.html'' @ [newline], ''ERROR 4042: disk full'' @ [newline],
          ''User-Agent: Mozilla/5.0'' @ [newline]]"
    by code_simp
  from malformed_pattern_error [where rc=example_compile and p="''[''" and fs=example_fs
      and path="''app.log''" and body=example_text and lim="Some 3" and ip=True and ec=True
      and ua=True] c a r
  have "analyze_log_file example_compile example_fs ''app.log'' (Some ''['') (Some 3) True True True
       = ([Logged Error (AnalysisError ReError)], [])"
    by simp
  with c a r show ?thesis by simp
qed






end
